theory Spec2Isabelle
  imports Main "HOL-Library.Word"
begin

section \<open>JavaScript values used by the two routes and the page\<close>

text \<open>
  A JavaScript string is a sequence of UTF-16 code units, so it is a list of 16-bit
  words here; \<open>js\<close> turns an ASCII literal of the source into such a string.
  Numbers in the source (ids, years, millisecond clocks, \<open>expires_in\<close>) are integral
  and far below \<open>2^53\<close>, where doubles are exact: they are \<open>int\<close>.
  \<open>undefined\<close>/\<open>null\<close> of an optional field is \<open>None\<close>.
\<close>

type_synonym jschar = "16 word"
type_synonym jsstring = "jschar list"

definition js :: "string \<Rightarrow> jsstring" where
  "js s = map (\<lambda>c. of_char c) s"

text \<open>ECMAScript \<open>WhiteSpace\<close> and \<open>LineTerminator\<close>: what \<open>String.prototype.trim\<close> strips.\<close>

definition isWhiteSpace :: "jschar \<Rightarrow> bool" where
  "isWhiteSpace c \<longleftrightarrow>
     c \<in> {0x0009, 0x000A, 0x000B, 0x000C, 0x000D, 0x0020, 0x00A0, 0x1680,
          0x2028, 0x2029, 0x202F, 0x205F, 0x3000, 0xFEFF}
     \<or> (0x2000 \<le> c \<and> c \<le> 0x200A)"

definition trim :: "jsstring \<Rightarrow> jsstring" where
  "trim s = rev (dropWhile isWhiteSpace (rev (dropWhile isWhiteSpace s)))"

text \<open>\<open>a || b\<close> on optional strings: the empty string and \<open>undefined\<close> are falsy.\<close>

definition truthy :: "jsstring option \<Rightarrow> bool" where
  "truthy v \<longleftrightarrow> (case v of None \<Rightarrow> False | Some s \<Rightarrow> s \<noteq> [])"

definition or_else :: "jsstring option \<Rightarrow> jsstring option \<Rightarrow> jsstring option" where
  "or_else a b = (if truthy a then a else b)"

definition or_default :: "jsstring option \<Rightarrow> jsstring \<Rightarrow> jsstring" where
  "or_default a d = (case a of None \<Rightarrow> d | Some s \<Rightarrow> if s \<noteq> [] then s else d)"

text \<open>\<open>String(n)\<close> for an integral number: its decimal digits, with a sign.\<close>

fun digits :: "nat \<Rightarrow> jsstring" where
  "digits n = (if n < 10 then [48 + of_nat n]
               else digits (n div 10) @ [48 + of_nat (n mod 10)])"

definition String_number :: "int \<Rightarrow> jsstring" where
  "String_number i = (if i < 0 then js ''-'' @ digits (nat (- i)) else digits (nat i))"

section \<open>HTTP: outgoing requests, upstream answers, the handler's response\<close>

text \<open>
  Every \<open>fetch\<close> of a handler is recorded in a log of requests, in order, so that
  "no upstream call" is a statement about the log. An upstream is a function from the
  request to what \<open>await fetch(...)\<close> gives: a rejection, or a response with its
  \<open>ok\<close> flag, its body as text (\<open>resp.text()\<close>) and its body as parsed JSON of the
  type the source casts it to (\<open>resp.json()\<close>; \<open>None\<close> when the body does not parse).
  A thrown exception of the handler is \<open>Inl\<close>.
\<close>

datatype exn =
    Error jsstring
  | FetchRejected
  | JsonSyntaxError

datatype req_body =
    NoBody
  | TextBody jsstring
  | GraphQLBody jsstring jsstring

record http_request =
  req_url :: jsstring
  req_params :: "(jsstring \<times> jsstring) list"
  req_method :: jsstring
  req_headers :: "(jsstring \<times> jsstring) list"
  req_body :: req_body

record 'j upstream_response =
  ok :: bool
  text_body :: jsstring
  json_body :: "'j option"

type_synonym 'j upstream = "http_request \<Rightarrow> exn + 'j upstream_response"

record SearchResult =
  r_id :: jsstring
  r_title :: jsstring
  r_year :: "int option"
  r_imageUrl :: jsstring

datatype resp_body =
    ResultsJson "SearchResult list"
  | PlainText jsstring

record response =
  status :: nat
  headers :: "(jsstring \<times> jsstring) list"
  body :: resp_body

definition json_headers :: "(jsstring \<times> jsstring) list" where
  "json_headers = [(js ''content-type'', js ''application/json'')]"

definition results_response :: "SearchResult list \<Rightarrow> response" where
  "results_response rs = \<lparr>status = 200, headers = json_headers, body = ResultsJson rs\<rparr>"

definition error_response :: "jsstring \<Rightarrow> response" where
  "error_response t = \<lparr>status = 500, headers = [], body = PlainText t\<rparr>"

text \<open>\<open>(searchParams.get("q") || "").trim()\<close>: an absent parameter is \<open>None\<close>.\<close>

definition query_param :: "jsstring option \<Rightarrow> jsstring" where
  "query_param p = trim (or_default p [])"

section \<open>The anime route\<close>

record Title =
  romaji :: "jsstring option"
  english :: "jsstring option"
  native :: "jsstring option"

record CoverImage =
  extraLarge :: "jsstring option"
  large :: "jsstring option"

record StartDate =
  sd_year :: "int option"

record Media =
  m_id :: int
  m_title :: "Title option"
  m_coverImage :: "CoverImage option"
  m_seasonYear :: "int option"
  m_startDate :: "StartDate option"

record AniListPage =
  media :: "Media list option"

record AniListData =
  Page :: "AniListPage option"

record AniListResponse =
  data :: "AniListData option"

definition anilist_query :: jsstring where
  "anilist_query = js (
     ''\<newline>    query ($search: String) {'' @
     ''\<newline>      Page(page: 1, perPage: 24) {'' @
     ''\<newline>        media(search: $search, type: ANIME, sort: POPULARITY_DESC) {'' @
     ''\<newline>          id'' @
     ''\<newline>          title { romaji english native }'' @
     ''\<newline>          coverImage { extraLarge large }'' @
     ''\<newline>          seasonYear'' @
     ''\<newline>          startDate { year }'' @
     ''\<newline>        }'' @
     ''\<newline>      }'' @
     ''\<newline>    }'' @
     ''\<newline>  '')"

definition anilist_request :: "jsstring \<Rightarrow> http_request" where
  "anilist_request q =
     \<lparr>req_url = js ''https://graphql.anilist.co'',
      req_params = [],
      req_method = js ''POST'',
      req_headers = [(js ''Content-Type'', js ''application/json''),
                     (js ''Accept'', js ''application/json'')],
      req_body = GraphQLBody anilist_query q\<rparr>"

text \<open>The optional chains \<open>m.title?.english\<close>, \<open>m.coverImage?.large\<close> and the like.\<close>

definition title_english :: "Media \<Rightarrow> jsstring option" where
  "title_english m = Option.bind (m_title m) english"

definition title_romaji :: "Media \<Rightarrow> jsstring option" where
  "title_romaji m = Option.bind (m_title m) romaji"

definition title_native :: "Media \<Rightarrow> jsstring option" where
  "title_native m = Option.bind (m_title m) native"

definition cover_extraLarge :: "Media \<Rightarrow> jsstring option" where
  "cover_extraLarge m = Option.bind (m_coverImage m) extraLarge"

definition cover_large :: "Media \<Rightarrow> jsstring option" where
  "cover_large m = Option.bind (m_coverImage m) large"

definition start_year :: "Media \<Rightarrow> int option" where
  "start_year m = Option.bind (m_startDate m) sd_year"

definition response_media :: "AniListResponse \<Rightarrow> Media list option" where
  "response_media j = Option.bind (Option.bind (data j) Page) media"

text \<open>\<open>m.title?.english || m.title?.romaji || m.title?.native || "Untitled"\<close>\<close>

definition anime_title :: "Media \<Rightarrow> jsstring" where
  "anime_title m =
     or_default (or_else (title_english m) (or_else (title_romaji m) (title_native m)))
       (js ''Untitled'')"

text \<open>\<open>m.coverImage?.extraLarge || m.coverImage?.large || ""\<close>\<close>

definition anime_imageUrl :: "Media \<Rightarrow> jsstring" where
  "anime_imageUrl m = or_default (or_else (cover_extraLarge m) (cover_large m)) []"

text \<open>\<open>m.seasonYear || m.startDate?.year\<close>: the number 0 is falsy.\<close>

definition anime_year :: "Media \<Rightarrow> int option" where
  "anime_year m =
     (case m_seasonYear m of
        None \<Rightarrow> start_year m
      | Some y \<Rightarrow> if y \<noteq> 0 then Some y else start_year m)"

definition anime_result :: "Media \<Rightarrow> SearchResult" where
  "anime_result m =
     \<lparr>r_id = String_number (m_id m),
      r_title = anime_title m,
      r_year = anime_year m,
      r_imageUrl = anime_imageUrl m\<rparr>"

text \<open>\<open>json.data?.Page?.media?.map(...).filter((r) => r.imageUrl) ?? []\<close>\<close>

definition anime_results :: "AniListResponse \<Rightarrow> SearchResult list" where
  "anime_results j =
     (case response_media j of
        None \<Rightarrow> []
      | Some ms \<Rightarrow> filter (\<lambda>r. r_imageUrl r \<noteq> []) (map anime_result ms))"

definition anime_GET ::
  "AniListResponse upstream \<Rightarrow> jsstring option \<Rightarrow> (exn + response) \<times> http_request list" where
  "anime_GET fetch qp =
     (let q = query_param qp in
      if q = [] then (Inr (results_response []), [])
      else
        let req = anilist_request q in
        case fetch req of
          Inl e \<Rightarrow> (Inl e, [req])
        | Inr resp \<Rightarrow>
            if \<not> ok resp then
              (Inr (error_response (or_default (Some (text_body resp)) (js ''AniList search failed''))),
               [req])
            else
              (case json_body resp of
                 None \<Rightarrow> (Inl JsonSyntaxError, [req])
               | Some j \<Rightarrow> (Inr (results_response (anime_results j)), [req])))"

section \<open>The game route\<close>

record CachedToken =
  token :: jsstring
  expiresAt :: int

record TokenJson =
  access_token :: jsstring
  expires_in :: int

record Cover =
  image_id :: "jsstring option"

record IGDBGame =
  g_id :: int
  g_name :: jsstring
  first_release_date :: "int option"
  cover :: "Cover option"

text \<open>
  What a run of the handler reads from its process and platform: the two environment
  variables, the clock (\<open>Date.now()\<close>, read once per token request), the two upstreams,
  and the platform's \<open>new Date(ms).getUTCFullYear()\<close>. The module variable
  \<open>cachedToken\<close> is passed in and returned. One run is modelled without another
  request interleaving at its \<open>await\<close>s.
\<close>

record game_env =
  TWITCH_CLIENT_ID :: "jsstring option"
  TWITCH_CLIENT_SECRET :: "jsstring option"
  Date_now :: int
  twitch :: "TokenJson upstream"
  igdb :: "IGDBGame list upstream"
  getUTCFullYear :: "int \<Rightarrow> int"

definition token_request :: "jsstring \<Rightarrow> jsstring \<Rightarrow> http_request" where
  "token_request clientId clientSecret =
     \<lparr>req_url = js ''https://id.twitch.tv/oauth2/token'',
      req_params = [(js ''client_id'', clientId),
                    (js ''client_secret'', clientSecret),
                    (js ''grant_type'', js ''client_credentials'')],
      req_method = js ''POST'',
      req_headers = [],
      req_body = NoBody\<rparr>"

text \<open>
  \<open>if (cachedToken && cachedToken.expiresAt - 60_000 > now) return cachedToken.token\<close>:
  the token that this test lets through, if any.
\<close>

definition reusable_token :: "CachedToken option \<Rightarrow> int \<Rightarrow> jsstring option" where
  "reusable_token c now =
     (case c of
        None \<Rightarrow> None
      | Some t \<Rightarrow> if expiresAt t - 60000 > now then Some (token t) else None)"

definition getTwitchAppToken ::
  "game_env \<Rightarrow> CachedToken option
     \<Rightarrow> (exn + jsstring) \<times> CachedToken option \<times> http_request list" where
  "getTwitchAppToken env cachedToken =
     (if \<not> truthy (TWITCH_CLIENT_ID env) \<or> \<not> truthy (TWITCH_CLIENT_SECRET env) then
        (Inl (Error (js ''Missing TWITCH_CLIENT_ID or TWITCH_CLIENT_SECRET in .env.local'')),
         cachedToken, [])
      else
        let now = Date_now env in
        case reusable_token cachedToken now of
          Some tok \<Rightarrow> (Inr tok, cachedToken, [])
        | None \<Rightarrow>
            let req = token_request (or_default (TWITCH_CLIENT_ID env) [])
                                    (or_default (TWITCH_CLIENT_SECRET env) []) in
            (case twitch env req of
               Inl e \<Rightarrow> (Inl e, cachedToken, [req])
             | Inr resp \<Rightarrow>
                 if \<not> ok resp then
                   (Inl (Error (or_default (Some (text_body resp))
                                  (js ''Failed to get Twitch token''))),
                    cachedToken, [req])
                 else
                   (case json_body resp of
                      None \<Rightarrow> (Inl JsonSyntaxError, cachedToken, [req])
                    | Some j \<Rightarrow>
                        (Inr (access_token j),
                         Some \<lparr>token = access_token j,
                               expiresAt = now + expires_in j * 1000\<rparr>,
                         [req]))))"

text \<open>\<open>q.replace(/"/g, "")\<close>\<close>

definition strip_quotes :: "jsstring \<Rightarrow> jsstring" where
  "strip_quotes q = filter (\<lambda>c. c \<noteq> 0x22) q"

text \<open>The template literal of the request body, and the body: its \<open>.trim()\<close>.\<close>

definition igdb_template :: "jsstring \<Rightarrow> jsstring" where
  "igdb_template q =
     js ''\<newline>    search '' @ [0x22] @ strip_quotes q @ [0x22] @ js '';'' @
     js ''\<newline>    fields name, first_release_date, cover.image_id;'' @
     js ''\<newline>    where version_parent = null;'' @
     js ''\<newline>    limit 24;'' @
     js ''\<newline>  ''"

definition igdb_body :: "jsstring \<Rightarrow> jsstring" where
  "igdb_body q = trim (igdb_template q)"

definition igdb_request :: "jsstring \<Rightarrow> jsstring \<Rightarrow> jsstring \<Rightarrow> http_request" where
  "igdb_request clientId tok q =
     \<lparr>req_url = js ''https://api.igdb.com/v4/games'',
      req_params = [],
      req_method = js ''POST'',
      req_headers = [(js ''Client-ID'', clientId),
                     (js ''Authorization'', js ''Bearer '' @ tok),
                     (js ''Accept'', js ''application/json''),
                     (js ''Content-Type'', js ''text/plain'')],
      req_body = TextBody (igdb_body q)\<rparr>"

definition game_year :: "game_env \<Rightarrow> IGDBGame \<Rightarrow> int option" where
  "game_year env g =
     (case first_release_date g of
        None \<Rightarrow> None
      | Some d \<Rightarrow> if d \<noteq> 0 then Some (getUTCFullYear env (d * 1000)) else None)"

definition game_imageUrl :: "IGDBGame \<Rightarrow> jsstring" where
  "game_imageUrl g =
     (case Option.bind (cover g) image_id of
        None \<Rightarrow> []
      | Some i \<Rightarrow>
          if i \<noteq> [] then
            js ''https://images.igdb.com/igdb/image/upload/t_cover_big/'' @ i @ js ''.jpg''
          else [])"

definition game_result :: "game_env \<Rightarrow> IGDBGame \<Rightarrow> SearchResult" where
  "game_result env g =
     \<lparr>r_id = String_number (g_id g),
      r_title = g_name g,
      r_year = game_year env g,
      r_imageUrl = game_imageUrl g\<rparr>"

definition game_results :: "game_env \<Rightarrow> IGDBGame list \<Rightarrow> SearchResult list" where
  "game_results env games = filter (\<lambda>r. r_imageUrl r \<noteq> []) (map (game_result env) games)"

text \<open>
  The handler. \<open>process.env.TWITCH_CLIENT_ID!\<close> is read before the token is asked for;
  the request that carries it is built only after \<open>getTwitchAppToken\<close> has returned,
  which it does only when the variable is a non-empty string.
\<close>

definition game_GET ::
  "game_env \<Rightarrow> CachedToken option \<Rightarrow> jsstring option
     \<Rightarrow> (exn + response) \<times> CachedToken option \<times> http_request list" where
  "game_GET env cachedToken qp =
     (let q = query_param qp in
      if q = [] then (Inr (results_response []), cachedToken, [])
      else
        let clientId = or_default (TWITCH_CLIENT_ID env) [] in
        case getTwitchAppToken env cachedToken of
          (Inl e, cache', log) \<Rightarrow> (Inl e, cache', log)
        | (Inr tok, cache', log) \<Rightarrow>
            let req = igdb_request clientId tok q in
            (case igdb env req of
               Inl e \<Rightarrow> (Inl e, cache', log @ [req])
             | Inr resp \<Rightarrow>
                 if \<not> ok resp then
                   (Inr (error_response (or_default (Some (text_body resp)) (js ''IGDB search failed''))),
                    cache', log @ [req])
                 else
                   (case json_body resp of
                      None \<Rightarrow> (Inl JsonSyntaxError, cache', log @ [req])
                    | Some games \<Rightarrow>
                        (Inr (results_response (game_results env games)), cache', log @ [req]))))"

subsection \<open>The request body read as a query\<close>

text \<open>
  The body is text in the upstream's query language, one statement per line. Its
  statements, as data, with the renderer that gives the text back; and the upstream's
  documented reading of the \<open>where\<close> statement on an entry (a map from field names to
  values, \<open>None\<close> for \<open>null\<close>).
\<close>

datatype apicalypse =
    Search jsstring
  | Fields "jsstring list"
  | WhereNull jsstring
  | Limit nat

fun join :: "jsstring \<Rightarrow> jsstring list \<Rightarrow> jsstring" where
  "join sep [] = []"
| "join sep [x] = x"
| "join sep (x # y # ys) = x @ sep @ join sep (y # ys)"

fun render_stmt :: "apicalypse \<Rightarrow> jsstring" where
  "render_stmt (Search s) = js ''search '' @ [0x22] @ s @ [0x22] @ js '';''"
| "render_stmt (Fields fs) = js ''fields '' @ join (js '', '') fs @ js '';''"
| "render_stmt (WhereNull f) = js ''where '' @ f @ js '' = null;''"
| "render_stmt (Limit n) = js ''limit '' @ digits n @ js '';''"

definition render :: "apicalypse list \<Rightarrow> jsstring" where
  "render stmts = join (js ''\<newline>    '') (map render_stmt stmts)"

definition igdb_query :: "jsstring \<Rightarrow> apicalypse list" where
  "igdb_query q =
     [Search (strip_quotes q),
      Fields [js ''name'', js ''first_release_date'', js ''cover.image_id''],
      WhereNull (js ''version_parent''),
      Limit 24]"

type_synonym igdb_entry = "jsstring \<Rightarrow> int option"

fun stmt_admits :: "igdb_entry \<Rightarrow> apicalypse \<Rightarrow> bool" where
  "stmt_admits e (WhereNull f) = (e f = None)"
| "stmt_admits e _ = True"

definition admits :: "apicalypse list \<Rightarrow> igdb_entry \<Rightarrow> bool" where
  "admits stmts e = list_all (stmt_admits e) stmts"

fun stmt_limit :: "apicalypse \<Rightarrow> nat option" where
  "stmt_limit (Limit n) = Some n"
| "stmt_limit _ = None"

definition query_limit :: "apicalypse list \<Rightarrow> nat option" where
  "query_limit stmts = (case List.map_filter stmt_limit stmts of [] \<Rightarrow> None | n # _ \<Rightarrow> Some n)"

text \<open>
  Upstream's entry kinds: a version variant (an edition of another game) names that
  game in \<open>version_parent\<close>; a DLC is an entry of \<open>category\<close> 1 (\<open>dlc_addon\<close>), which
  names its base game in \<open>parent_game\<close>.
\<close>

definition is_version_variant :: "igdb_entry \<Rightarrow> bool" where
  "is_version_variant e \<longleftrightarrow> e (js ''version_parent'') \<noteq> None"

definition is_dlc :: "igdb_entry \<Rightarrow> bool" where
  "is_dlc e \<longleftrightarrow> e (js ''category'') = Some 1"

definition dlc_entry :: igdb_entry where
  "dlc_entry = (\<lambda>f. if f = js ''category'' then Some 1
                     else if f = js ''parent_game'' then Some 1942
                     else None)"

definition main_entry :: igdb_entry where
  "main_entry = (\<lambda>f. if f = js ''category'' then Some 0 else None)"

section \<open>The page: the chart editor and the search modal\<close>

text \<open>
  A JavaScript array can have holes, and a write past its end extends it; an element is
  \<open>None\<close> where a read gives \<open>undefined\<close>. A cell is the object at run time: the
  spread \<open>{ ...copy[i], ...patch }\<close> over a hole has only the keys of the patch, so
  \<open>label\<close> is optional in the object although the type \<open>CellData\<close> requires it.
\<close>

type_synonym 'a jsarray = "'a option list"

definition array_get :: "'a jsarray \<Rightarrow> nat \<Rightarrow> 'a option" where
  "array_get a i = (if i < length a then a ! i else None)"

definition array_set :: "'a jsarray \<Rightarrow> nat \<Rightarrow> 'a \<Rightarrow> 'a jsarray" where
  "array_set a i v =
     (if i < length a then a[i := Some v]
      else a @ replicate (i - length a) None @ [Some v])"

record CellData =
  label :: "jsstring option"
  imageUrl :: "jsstring option"

text \<open>
  \<open>Partial<CellData>\<close> as the call sites build it: the key \<open>label\<close> absent or a string;
  the key \<open>imageUrl\<close> absent (\<open>None\<close>), or present with a string or with \<open>undefined\<close>
  (\<open>Some None\<close>, what \<open>clearImage\<close> passes).
\<close>

record Patch =
  p_label :: "jsstring option"
  p_imageUrl :: "jsstring option option"

definition spread :: "CellData option \<Rightarrow> Patch \<Rightarrow> CellData" where
  "spread old patch =
     (let c = (case old of None \<Rightarrow> \<lparr>label = None, imageUrl = None\<rparr> | Some c \<Rightarrow> c) in
      \<lparr>label = (case p_label patch of None \<Rightarrow> label c | Some l \<Rightarrow> Some l),
       imageUrl = (case p_imageUrl patch of None \<Rightarrow> imageUrl c | Some v \<Rightarrow> v)\<rparr>)"

datatype SearchType = Game | Anime

record File =
  file_type :: jsstring

text \<open>
  The state of the component: its \<open>useState\<close> variables, the messages shown by
  \<open>alert\<close> so far, and the file readers started and not yet finished, each with the
  \<open>selectedIndex\<close> that its \<open>onload\<close> closure captured.
\<close>

record editor =
  chartTitle :: jsstring
  cells :: "CellData jsarray"
  selectedIndex :: "nat option"
  isExporting :: bool
  isSearchOpen :: bool
  searchType :: SearchType
  query :: jsstring
  results :: "SearchResult list"
  isSearching :: bool
  searchError :: "jsstring option"
  alerts :: "jsstring list"
  readers :: "nat list"

definition rows :: nat where "rows = 3"
definition cols :: nat where "cols = 6"

definition defaultLabels :: "jsstring list" where
  "defaultLabels =
     [js ''Favorite Game of all Time'',
      js ''Favorite Series'',
      js ''Best Soundtrack'',
      js ''Favorite Protagonist'',
      js ''Favorite Villain'',
      js ''Best Story'',
      js ''Have not played but want to'',
      js ''You Love Everyone Hates'',
      js ''You Hate Everyone Loves'',
      js ''Best Art Style'',
      js ''Favorite Ending'',
      js ''Favorite Boss Fight'',
      js ''Childhood Game'',
      js ''Relaxing Game'',
      js ''Stressful Game'',
      js ''Game you always come back to'',
      js ''Guilty Pleasure'',
      js ''Tons of Hours Played'']"

definition initial :: editor where
  "initial =
     \<lparr>chartTitle = js ''About You: Video Games/Anime'',
      cells = map (\<lambda>l. Some \<lparr>label = Some l, imageUrl = None\<rparr>) defaultLabels,
      selectedIndex = None,
      isExporting = False,
      isSearchOpen = False,
      searchType = Game,
      query = [],
      results = [],
      isSearching = False,
      searchError = None,
      alerts = [],
      readers = []\<rparr>"

definition setSelectedIndex :: "nat \<Rightarrow> editor \<Rightarrow> editor" where
  "setSelectedIndex i s = s\<lparr>selectedIndex := Some i\<rparr>"

definition selectedCell :: "editor \<Rightarrow> CellData option" where
  "selectedCell s = (case selectedIndex s of None \<Rightarrow> None | Some i \<Rightarrow> array_get (cells s) i)"

text \<open>
  \<open>updateSelected\<close> with the \<open>selectedIndex\<close> of its closure as a parameter: the
  function given to \<open>setCells\<close> runs on the cells of the moment.
\<close>

definition update_cells :: "nat option \<Rightarrow> Patch \<Rightarrow> CellData jsarray \<Rightarrow> CellData jsarray" where
  "update_cells sel patch prev =
     (case sel of
        None \<Rightarrow> prev
      | Some i \<Rightarrow> array_set prev i (spread (array_get prev i) patch))"

definition updateSelected :: "Patch \<Rightarrow> editor \<Rightarrow> editor" where
  "updateSelected patch s = s\<lparr>cells := update_cells (selectedIndex s) patch (cells s)\<rparr>"

definition label_patch :: "jsstring \<Rightarrow> Patch" where
  "label_patch x = \<lparr>p_label = Some x, p_imageUrl = None\<rparr>"

definition image_patch :: "jsstring option \<Rightarrow> Patch" where
  "image_patch v = \<lparr>p_label = None, p_imageUrl = Some v\<rparr>"

definition startsWith :: "jsstring \<Rightarrow> jsstring \<Rightarrow> bool" where
  "startsWith s p \<longleftrightarrow> take (length p) s = p"

definition upload_rejected :: jsstring where
  "upload_rejected = js ''Please upload an image file (png/jpg/webp/etc).''"

definition handleUploadImage :: "File \<Rightarrow> editor \<Rightarrow> editor" where
  "handleUploadImage file s =
     (case selectedIndex s of
        None \<Rightarrow> s
      | Some i \<Rightarrow>
          if \<not> startsWith (file_type file) (js ''image/'') then
            s\<lparr>alerts := alerts s @ [upload_rejected]\<rparr>
          else s\<lparr>readers := readers s @ [i]\<rparr>)"

text \<open>The two callbacks of a reader that captured index \<open>i\<close>.\<close>

definition reader_onload :: "nat \<Rightarrow> jsstring \<Rightarrow> editor \<Rightarrow> editor" where
  "reader_onload i dataUrl s =
     s\<lparr>cells := update_cells (Some i) (image_patch (Some dataUrl)) (cells s),
       readers := remove1 i (readers s)\<rparr>"

definition reader_onerror :: "nat \<Rightarrow> editor \<Rightarrow> editor" where
  "reader_onerror i s =
     s\<lparr>alerts := alerts s @ [js ''Failed to read the image file.''],
       readers := remove1 i (readers s)\<rparr>"

definition pickResult :: "SearchResult \<Rightarrow> editor \<Rightarrow> editor" where
  "pickResult r s =
     (case selectedIndex s of
        None \<Rightarrow> s
      | Some i \<Rightarrow> (updateSelected (image_patch (Some (r_imageUrl r))) s)\<lparr>isSearchOpen := False\<rparr>)"

definition clearImage :: "editor \<Rightarrow> editor" where
  "clearImage s = updateSelected (image_patch None) s"

text \<open>
  \<open>runSearch\<close> in two parts, before and after its \<open>await\<close>s; the outcome of the call
  to the route is what the second part receives.
\<close>

datatype search_outcome =
    Fetched "SearchResult list option"
  | NotOk jsstring
  | Threw "jsstring option"

definition runSearch_begin :: "editor \<Rightarrow> editor" where
  "runSearch_begin s =
     (if trim (query s) = [] then s
      else s\<lparr>isSearching := True, searchError := None, results := []\<rparr>)"

definition runSearch_settle :: "search_outcome \<Rightarrow> editor \<Rightarrow> editor" where
  "runSearch_settle out s =
     (case out of
        Fetched rs \<Rightarrow>
          s\<lparr>results := (case rs of None \<Rightarrow> [] | Some r \<Rightarrow> r), isSearching := False\<rparr>
      | NotOk msg \<Rightarrow>
          s\<lparr>searchError := Some (or_default (Some msg) (js ''Search failed'')),
            isSearching := False\<rparr>
      | Threw m \<Rightarrow>
          s\<lparr>searchError := Some (case m of None \<Rightarrow> js ''Search failed'' | Some t \<Rightarrow> t),
            isSearching := False\<rparr>)"

definition export_failed :: jsstring where
  "export_failed = js (''Export failed. If this happens after adding external images, '' @
     ''it may be a CORS issue. (Uploads should export reliably.)'')"

definition exportPng_begin :: "editor \<Rightarrow> editor" where
  "exportPng_begin s = s\<lparr>isExporting := True\<rparr>"

definition exportPng_settle :: "bool \<Rightarrow> editor \<Rightarrow> editor" where
  "exportPng_settle succeeded s =
     (if succeeded then s\<lparr>isExporting := False\<rparr>
      else s\<lparr>alerts := alerts s @ [export_failed], isExporting := False\<rparr>)"

text \<open>
  The events of the page, and the handler each one runs. A grid button exists for each
  \<open>i\<close> below \<open>rows * cols\<close> and calls \<open>setSelectedIndex(i)\<close>; a reader calls back
  once, with the index it captured. An event that cannot occur gives \<open>None\<close>. The other
  handlers are taken at any time, whether their control is shown or not.
\<close>

datatype event =
    ClickCell nat
  | EditTitle jsstring
  | EditLabel jsstring
  | ClickClear
  | FileChosen File
  | ReaderLoaded nat jsstring
  | ReaderFailed nat
  | OpenSearch
  | CloseSearch
  | SetType SearchType
  | SetQuery jsstring
  | SearchBegin
  | SearchSettle search_outcome
  | PickResult SearchResult
  | ExportBegin
  | ExportSettle bool

fun handle :: "event \<Rightarrow> editor \<Rightarrow> editor option" where
  "handle (ClickCell i) s = (if i < rows * cols then Some (setSelectedIndex i s) else None)"
| "handle (EditTitle t) s = Some (s\<lparr>chartTitle := t\<rparr>)"
| "handle (EditLabel x) s = Some (updateSelected (label_patch x) s)"
| "handle ClickClear s = Some (clearImage s)"
| "handle (FileChosen file) s = Some (handleUploadImage file s)"
| "handle (ReaderLoaded i dataUrl) s =
     (if i \<in> set (readers s) then Some (reader_onload i dataUrl s) else None)"
| "handle (ReaderFailed i) s =
     (if i \<in> set (readers s) then Some (reader_onerror i s) else None)"
| "handle OpenSearch s = Some (s\<lparr>isSearchOpen := True\<rparr>)"
| "handle CloseSearch s = Some (s\<lparr>isSearchOpen := False\<rparr>)"
| "handle (SetType ty) s = Some (s\<lparr>searchType := ty\<rparr>)"
| "handle (SetQuery q) s = Some (s\<lparr>query := q\<rparr>)"
| "handle SearchBegin s = Some (runSearch_begin s)"
| "handle (SearchSettle out) s = Some (runSearch_settle out s)"
| "handle (PickResult r) s = Some (pickResult r s)"
| "handle ExportBegin s = Some (exportPng_begin s)"
| "handle (ExportSettle succeeded) s = Some (exportPng_settle succeeded s)"

fun run :: "editor \<Rightarrow> event list \<Rightarrow> editor option" where
  "run s [] = Some s"
| "run s (e # es) = (case handle e s of None \<Rightarrow> None | Some s' \<Rightarrow> run s' es)"

text \<open>
  The invariant of the editor: 18 cells, a selected index that is unset or below 18,
  and the same bound on the indices the pending readers captured.
\<close>

definition index_ok :: "editor \<Rightarrow> bool" where
  "index_ok s \<longleftrightarrow>
     length (cells s) = 18 \<and>
     (case selectedIndex s of None \<Rightarrow> True | Some i \<Rightarrow> i < 18) \<and>
     list_all (\<lambda>i. i < 18) (readers s)"

section \<open>Inputs used in the examples\<close>

definition rejecting :: "'j upstream" where
  "rejecting req = Inl FetchRejected"

definition silent_failure :: "AniListResponse upstream_response" where
  "silent_failure = \<lparr>ok = False, text_body = [], json_body = None\<rparr>"

definition silent_upstream :: "AniListResponse upstream" where
  "silent_upstream req = Inr silent_failure"

definition throttled_upstream :: "AniListResponse upstream" where
  "throttled_upstream req =
     Inr \<lparr>ok = False, text_body = js ''Too Many Requests'', json_body = None\<rparr>"

definition frieren :: Media where
  "frieren =
     \<lparr>m_id = 154587,
      m_title = Some \<lparr>romaji = Some (js ''Sousou no Frieren''),
                      english = Some (js ''Frieren''),
                      native = None\<rparr>,
      m_coverImage = Some \<lparr>extraLarge = Some (js ''http://x/xl.jpg''),
                           large = Some (js ''http://x/l.jpg'')\<rparr>,
      m_seasonYear = Some 2023,
      m_startDate = None\<rparr>"

definition romaji_only :: Media where
  "romaji_only =
     \<lparr>m_id = 457,
      m_title = Some \<lparr>romaji = Some (js ''Mushishi''), english = Some [], native = None\<rparr>,
      m_coverImage = Some \<lparr>extraLarge = Some [], large = Some (js ''http://x/457.jpg'')\<rparr>,
      m_seasonYear = None,
      m_startDate = Some \<lparr>sd_year = Some 2005\<rparr>\<rparr>"

definition native_only :: Media where
  "native_only =
     \<lparr>m_id = 12,
      m_title = Some \<lparr>romaji = None, english = None, native = Some (js ''Kaiba'')\<rparr>,
      m_coverImage = Some \<lparr>extraLarge = Some (js ''http://x/12.jpg''), large = None\<rparr>,
      m_seasonYear = None,
      m_startDate = None\<rparr>"

definition coverless :: Media where
  "coverless =
     \<lparr>m_id = 7,
      m_title = Some \<lparr>romaji = Some (js ''Mushishi''), english = None, native = None\<rparr>,
      m_coverImage = None,
      m_seasonYear = None,
      m_startDate = None\<rparr>"

definition untitled :: Media where
  "untitled =
     \<lparr>m_id = 9,
      m_title = None,
      m_coverImage = Some \<lparr>extraLarge = None, large = Some (js ''http://x/9.jpg'')\<rparr>,
      m_seasonYear = Some 0,
      m_startDate = Some \<lparr>sd_year = Some 1999\<rparr>\<rparr>"

definition sample_json :: AniListResponse where
  "sample_json =
     \<lparr>data = Some \<lparr>Page = Some \<lparr>media =
        Some [frieren, romaji_only, native_only, coverless, untitled]\<rparr>\<rparr>\<rparr>"

definition sample_upstream :: "AniListResponse upstream" where
  "sample_upstream req = Inr \<lparr>ok = True, text_body = [], json_body = Some sample_json\<rparr>"

text \<open>
  An environment with credentials, a clock at 1000000 ms and a token upstream that
  grants a token for 3600 seconds. Its games upstream rejects, so no example evaluates
  its calendar function, a rough stand-in for the platform's.
\<close>

definition sample_env :: game_env where
  "sample_env =
     \<lparr>TWITCH_CLIENT_ID = Some (js ''id''),
      TWITCH_CLIENT_SECRET = Some (js ''secret''),
      Date_now = 1000000,
      twitch = (\<lambda>req. Inr \<lparr>ok = True, text_body = [],
                  json_body = Some \<lparr>access_token = js ''fresh'', expires_in = 3600\<rparr>\<rparr>),
      igdb = rejecting,
      getUTCFullYear = (\<lambda>ms. 1970 + ms div 31556952000)\<rparr>"

definition unconfigured_env :: game_env where
  "unconfigured_env = sample_env\<lparr>TWITCH_CLIENT_ID := None, TWITCH_CLIENT_SECRET := None\<rparr>"



definition text_file :: File where
  "text_file = \<lparr>file_type = js ''text/plain''\<rparr>"

definition picked :: SearchResult where
  "picked = \<lparr>r_id = js ''1'', r_title = js ''T'', r_year = None,
              r_imageUrl = js ''http://x/y.jpg''\<rparr>"

definition sample_events :: "event list" where
  "sample_events =
     [ClickCell 3, EditLabel (js ''X''), FileChosen text_file, PickResult picked, ClickCell 17]"

section \<open>Facts about strings and arrays\<close>

lemma or_default_Nil: "or_default p [] = (case p of None \<Rightarrow> [] | Some s \<Rightarrow> s)"
  by (simp add: or_default_def split: option.splits)

lemma or_default_Some: "or_default (Some t) d = (if t \<noteq> [] then t else d)"
  by (simp add: or_default_def)

lemma dropWhile_all_Nil: "(\<forall>x\<in>set (dropWhile P s). P x) \<longleftrightarrow> dropWhile P s = []"
proof
  assume a: "\<forall>x\<in>set (dropWhile P s). P x"
  show "dropWhile P s = []"
  proof (rule ccontr)
    assume n: "dropWhile P s \<noteq> []"
    then have "\<not> P (hd (dropWhile P s))" by (rule hd_dropWhile)
    moreover have "hd (dropWhile P s) \<in> set (dropWhile P s)" using n by simp
    ultimately show False using a by blast
  qed
qed (simp del: dropWhile_eq_Nil_conv)

lemma trim_eq_Nil_iff: "trim s = [] \<longleftrightarrow> list_all isWhiteSpace s"
proof -
  have "trim s = [] \<longleftrightarrow> (\<forall>x\<in>set (dropWhile isWhiteSpace s). isWhiteSpace x)"
    by (simp add: trim_def)
  also have "\<dots> \<longleftrightarrow> dropWhile isWhiteSpace s = []" by (rule dropWhile_all_Nil)
  also have "\<dots> \<longleftrightarrow> list_all isWhiteSpace s" by (simp add: list_all_iff)
  finally show ?thesis .
qed

lemma query_param_Nil_iff:
  "query_param qp = [] \<longleftrightarrow> (qp = None \<or> (\<exists>s. qp = Some s \<and> list_all isWhiteSpace s))"
  by (cases qp) (simp_all add: query_param_def trim_eq_Nil_iff or_default_Nil)

lemma trim_core:
  assumes l: "list_all isWhiteSpace l" and r: "list_all isWhiteSpace r"
    and m: "m \<noteq> []" and h: "\<not> isWhiteSpace (hd m)" and t: "\<not> isWhiteSpace (last m)"
  shows "trim (l @ m @ r) = m"
proof -
  have "dropWhile isWhiteSpace (l @ m @ r) = dropWhile isWhiteSpace (m @ r)"
    using l by (simp add: dropWhile_append2 list_all_iff)
  also have "\<dots> = m @ r" using m h by (cases m) simp_all
  finally have 1: "dropWhile isWhiteSpace (l @ m @ r) = m @ r" .
  have "dropWhile isWhiteSpace (rev r @ rev m) = dropWhile isWhiteSpace (rev m)"
    using r by (intro dropWhile_append2) (simp add: list_all_iff)
  also have "\<dots> = rev m" using m t by (cases m rule: rev_cases) simp_all
  finally have 2: "dropWhile isWhiteSpace (rev r @ rev m) = rev m" .
  show ?thesis by (simp add: trim_def 1 2)
qed

lemma trim_naruto: "query_param (Some (js ''naruto'')) = js ''naruto''"
  by (simp add: query_param_def or_default_def trim_def js_def isWhiteSpace_def)

lemma array_get_set:
  "array_get (array_set a i v) j = (if j = i then Some v else array_get a j)"
  by (auto simp add: array_get_def array_set_def nth_append)

lemma length_array_set: "i < length a \<Longrightarrow> length (array_set a i v) = length a"
  by (simp add: array_set_def)

section \<open>The anime route: empty queries, upstream failures, normalisation\<close>

text \<open>
  C3. When the \<open>q\<close> parameter of an anime search is absent, empty or made of white
  space only, the handler answers \<open>{ results: [] }\<close> (status 200, JSON) and its
  request log is empty: no upstream call is made, whatever the upstream would answer.
\<close>

theorem anime_blank_query:
  assumes "qp = None \<or> (\<exists>s. qp = Some s \<and> list_all isWhiteSpace s)"
  shows "anime_GET fetch qp =
           (Inr \<lparr>status = 200, headers = json_headers, body = ResultsJson []\<rparr>, [])"
  using assms
  by (simp add: anime_GET_def query_param_Nil_iff [symmetric] results_response_def)

theorem anime_blank_query_witness:
  "list_all isWhiteSpace (js '' '' @ [0x3000, 0x0009]) \<and>
   anime_GET sample_upstream (Some (js '' '' @ [0x3000, 0x0009])) =
     (Inr \<lparr>status = 200, headers = json_headers, body = ResultsJson []\<rparr>, []) \<and>
   anime_GET sample_upstream None =
     (Inr \<lparr>status = 200, headers = json_headers, body = ResultsJson []\<rparr>, []) \<and>
   anime_GET sample_upstream (Some []) =
     (Inr \<lparr>status = 200, headers = json_headers, body = ResultsJson []\<rparr>, [])"
proof -
  have w: "list_all isWhiteSpace (js '' '' @ [0x3000, 0x0009])"
    by (simp add: js_def isWhiteSpace_def)
  show ?thesis
    using w anime_blank_query [of "Some (js '' '' @ [0x3000, 0x0009])" sample_upstream]
      anime_blank_query [of None sample_upstream]
      anime_blank_query [of "Some []" sample_upstream]
    by simp
qed

text \<open>
  C7, as stated: for a non-empty query and an upstream answer that is not a success,
  the handler would answer 500 with exactly the upstream's text as its body. It does
  not when that text is empty: the body is then the fixed message.
\<close>

theorem anime_error_text_counterexample:
  "fst (anime_GET silent_upstream (Some (js ''naruto''))) =
     Inr \<lparr>status = 500, headers = [], body = PlainText (js ''AniList search failed'')\<rparr> \<and>
   fst (anime_GET silent_upstream (Some (js ''naruto''))) \<noteq>
     Inr \<lparr>status = 500, headers = [], body = PlainText (text_body silent_failure)\<rparr>"
  by (simp add: anime_GET_def Let_def trim_naruto silent_upstream_def silent_failure_def
      error_response_def or_default_def, simp_all add: js_def)

text \<open>
  C7, amended. For a non-empty query and an upstream answer that is not a success, the
  handler makes that one upstream call and answers with status 500; the body is the
  upstream's text when that text is not empty, and \<open>AniList search failed\<close> when it
  is.
\<close>

theorem anime_error_text:
  assumes "query_param qp \<noteq> []"
    and "fetch (anilist_request (query_param qp)) = Inr resp"
    and "\<not> ok resp"
  shows "anime_GET fetch qp =
           (Inr \<lparr>status = 500, headers = [],
                 body = PlainText (if text_body resp \<noteq> [] then text_body resp
                                   else js ''AniList search failed'')\<rparr>,
            [anilist_request (query_param qp)])"
  using assms by (simp add: anime_GET_def Let_def error_response_def or_default_Some)

theorem anime_error_text_witness:
  "query_param (Some (js ''naruto'')) \<noteq> [] \<and>
   anime_GET throttled_upstream (Some (js ''naruto'')) =
     (Inr \<lparr>status = 500, headers = [], body = PlainText (js ''Too Many Requests'')\<rparr>,
      [anilist_request (js ''naruto'')])"
proof -
  have q: "query_param (Some (js ''naruto'')) \<noteq> []"
    unfolding trim_naruto by (simp add: js_def)
  have f: "throttled_upstream (anilist_request (query_param (Some (js ''naruto'')))) =
      Inr \<lparr>ok = False, text_body = js ''Too Many Requests'', json_body = None\<rparr>"
    by (simp add: throttled_upstream_def)
  show ?thesis
    using q anime_error_text [of "Some (js ''naruto'')" throttled_upstream, OF q f] by (simp add: trim_naruto, simp add: js_def)
qed


text \<open>
  C4. For a non-empty query and a successful upstream answer with JSON \<open>j\<close>, the
  handler answers with one result for each media item of \<open>j\<close> that has a cover image,
  in the upstream's order, and none for an item whose \<open>coverImage\<close> is missing or has
  both \<open>extraLarge\<close> and \<open>large\<close> missing or empty. For every item the title is the
  \<open>english\<close> field of its \<open>title\<close> if there is one, else the \<open>romaji\<close> field, else the
  \<open>native\<close> field, else \<open>Untitled\<close>; the image is the \<open>extraLarge\<close> field of its
  \<open>coverImage\<close> if there is one, else the \<open>large\<close> field. A field "is there" when it
  is a non-empty string, the test \<open>||\<close> makes.
\<close>

theorem anime_results_normalised:
  assumes "query_param qp \<noteq> []"
    and "fetch (anilist_request (query_param qp)) = Inr resp"
    and "ok resp"
    and "json_body resp = Some j"
  shows "anime_GET fetch qp =
           (Inr \<lparr>status = 200, headers = json_headers,
                 body = ResultsJson
                   (map anime_result
                     (filter
                       (\<lambda>m. case m_coverImage m of
                              None \<Rightarrow> False
                            | Some c \<Rightarrow> extraLarge c \<notin> {None, Some []} \<or> large c \<notin> {None, Some []})
                       (case data j of
                          None \<Rightarrow> []
                        | Some d \<Rightarrow>
                            (case Page d of
                               None \<Rightarrow> []
                             | Some p \<Rightarrow> (case media p of None \<Rightarrow> [] | Some ms \<Rightarrow> ms)))))\<rparr>,
            [anilist_request (query_param qp)])
         \<and> (\<forall>m. r_title (anime_result m) =
                  (case m_title m of
                     None \<Rightarrow> js ''Untitled''
                   | Some t \<Rightarrow>
                       if english t \<notin> {None, Some []} then the (english t)
                       else if romaji t \<notin> {None, Some []} then the (romaji t)
                       else if native t \<notin> {None, Some []} then the (native t)
                       else js ''Untitled''))
         \<and> (\<forall>m. r_imageUrl (anime_result m) =
                  (case m_coverImage m of
                     None \<Rightarrow> []
                   | Some c \<Rightarrow>
                       if extraLarge c \<notin> {None, Some []} then the (extraLarge c)
                       else if large c \<notin> {None, Some []} then the (large c)
                       else []))"
proof -
  have tr: "truthy v \<longleftrightarrow> v \<notin> {None, Some []}" for v
    by (cases v) (simp_all add: truthy_def)
  have url: "r_imageUrl (anime_result m) =
      (case m_coverImage m of
         None \<Rightarrow> []
       | Some c \<Rightarrow>
           if extraLarge c \<notin> {None, Some []} then the (extraLarge c)
           else if large c \<notin> {None, Some []} then the (large c)
           else [])" for m
    by (auto simp add: anime_result_def anime_imageUrl_def cover_extraLarge_def cover_large_def
        or_default_def or_else_def truthy_def split: option.splits)
  have img: "r_imageUrl (anime_result m) \<noteq> [] \<longleftrightarrow>
      (case m_coverImage m of
         None \<Rightarrow> False
       | Some c \<Rightarrow> extraLarge c \<notin> {None, Some []} \<or> large c \<notin> {None, Some []})" for m
    unfolding url by (auto split: option.splits)
  have flt: "filter (\<lambda>r. r_imageUrl r \<noteq> []) (map anime_result ms) =
      map anime_result
        (filter
          (\<lambda>m. case m_coverImage m of
                 None \<Rightarrow> False
               | Some c \<Rightarrow> extraLarge c \<notin> {None, Some []} \<or> large c \<notin> {None, Some []})
          ms)" for ms
    by (induction ms) (simp_all add: img)
  have res: "anime_results j =
      map anime_result
        (filter
          (\<lambda>m. case m_coverImage m of
                 None \<Rightarrow> False
               | Some c \<Rightarrow> extraLarge c \<notin> {None, Some []} \<or> large c \<notin> {None, Some []})
          (case data j of
             None \<Rightarrow> []
           | Some d \<Rightarrow>
               (case Page d of
                  None \<Rightarrow> []
                | Some p \<Rightarrow> (case media p of None \<Rightarrow> [] | Some ms \<Rightarrow> ms))))"
    by (simp add: anime_results_def response_media_def flt split: option.splits)
  have get: "anime_GET fetch qp =
      (Inr (results_response (anime_results j)), [anilist_request (query_param qp)])"
    using assms by (simp add: anime_GET_def Let_def)
  have ttl: "r_title (anime_result m) =
      (case m_title m of
         None \<Rightarrow> js ''Untitled''
       | Some t \<Rightarrow>
           if english t \<notin> {None, Some []} then the (english t)
           else if romaji t \<notin> {None, Some []} then the (romaji t)
           else if native t \<notin> {None, Some []} then the (native t)
           else js ''Untitled'')" for m
    by (auto simp add: anime_result_def anime_title_def title_english_def title_romaji_def
        title_native_def or_default_def or_else_def truthy_def split: option.splits)
  show ?thesis
    unfolding get res results_response_def using ttl url by blast
qed

theorem anime_results_normalised_witness:
  "query_param (Some (js ''naruto'')) \<noteq> [] \<and>
   anime_GET sample_upstream (Some (js ''naruto'')) =
     (Inr \<lparr>status = 200, headers = json_headers,
           body = ResultsJson
             [\<lparr>r_id = js ''154587'', r_title = js ''Frieren'', r_year = Some 2023,
               r_imageUrl = js ''http://x/xl.jpg''\<rparr>,
              \<lparr>r_id = js ''457'', r_title = js ''Mushishi'', r_year = Some 2005,
               r_imageUrl = js ''http://x/457.jpg''\<rparr>,
              \<lparr>r_id = js ''12'', r_title = js ''Kaiba'', r_year = None,
               r_imageUrl = js ''http://x/12.jpg''\<rparr>,
              \<lparr>r_id = js ''9'', r_title = js ''Untitled'', r_year = Some 1999,
               r_imageUrl = js ''http://x/9.jpg''\<rparr>]\<rparr>,
      [anilist_request (js ''naruto'')])"
proof -
  have q: "query_param (Some (js ''naruto'')) \<noteq> []"
    unfolding trim_naruto by (simp add: js_def)
  have f: "sample_upstream (anilist_request (query_param (Some (js ''naruto'')))) =
      Inr \<lparr>ok = True, text_body = [], json_body = Some sample_json\<rparr>"
    by (simp add: sample_upstream_def)
  have ids: "String_number 154587 = js ''154587''" "String_number 457 = js ''457''"
    "String_number 12 = js ''12''" "String_number 9 = js ''9''"
    by (simp_all add: String_number_def js_def)
  have yrs: "anime_year frieren = Some 2023" "anime_year romaji_only = Some 2005"
    "anime_year native_only = None" "anime_year untitled = Some 1999"
    by (simp_all add: anime_year_def start_year_def frieren_def romaji_only_def
        native_only_def untitled_def)
  have nonempty: "js ''Frieren'' \<noteq> []" "js ''Sousou no Frieren'' \<noteq> []"
    "js ''Mushishi'' \<noteq> []" "js ''Kaiba'' \<noteq> []" "js ''http://x/xl.jpg'' \<noteq> []"
    "js ''http://x/l.jpg'' \<noteq> []" "js ''http://x/457.jpg'' \<noteq> []"
    "js ''http://x/12.jpg'' \<noteq> []" "js ''http://x/9.jpg'' \<noteq> []"
    by (simp_all add: js_def)
  have flds: "m_title frieren = Some \<lparr>romaji = Some (js ''Sousou no Frieren''),
                 english = Some (js ''Frieren''), native = None\<rparr>"
    "m_coverImage frieren = Some \<lparr>extraLarge = Some (js ''http://x/xl.jpg''),
                 large = Some (js ''http://x/l.jpg'')\<rparr>"
    "m_title romaji_only = Some \<lparr>romaji = Some (js ''Mushishi''), english = Some [],
                 native = None\<rparr>"
    "m_coverImage romaji_only = Some \<lparr>extraLarge = Some [],
                 large = Some (js ''http://x/457.jpg'')\<rparr>"
    "m_title native_only = Some \<lparr>romaji = None, english = None,
                 native = Some (js ''Kaiba'')\<rparr>"
    "m_coverImage native_only = Some \<lparr>extraLarge = Some (js ''http://x/12.jpg''),
                 large = None\<rparr>"
    "m_title coverless = Some \<lparr>romaji = Some (js ''Mushishi''), english = None,
                 native = None\<rparr>"
    "m_coverImage coverless = None"
    "m_title untitled = None"
    "m_coverImage untitled = Some \<lparr>extraLarge = None, large = Some (js ''http://x/9.jpg'')\<rparr>"
    "m_id frieren = 154587" "m_id romaji_only = 457" "m_id native_only = 12" "m_id untitled = 9"
    by (simp_all add: frieren_def romaji_only_def native_only_def coverless_def untitled_def)
  have d: "data sample_json =
      Some \<lparr>Page = Some \<lparr>media =
        Some [frieren, romaji_only, native_only, coverless, untitled]\<rparr>\<rparr>"
    by (simp add: sample_json_def)
  have eq: "r = \<lparr>r_id = r_id r, r_title = r_title r, r_year = r_year r,
                 r_imageUrl = r_imageUrl r\<rparr>" for r :: SearchResult
    by simp
  have n: "anime_result m =
      \<lparr>r_id = String_number (m_id m), r_title = r_title (anime_result m),
        r_year = anime_year m, r_imageUrl = r_imageUrl (anime_result m)\<rparr>" for m
    by (simp add: anime_result_def)
  note w = anime_results_normalised [of "Some (js ''naruto'')" sample_upstream, OF q f]
  have t: "r_title (anime_result frieren) = js ''Frieren''"
    "r_title (anime_result romaji_only) = js ''Mushishi''"
    "r_title (anime_result native_only) = js ''Kaiba''"
    "r_title (anime_result untitled) = js ''Untitled''"
    "r_imageUrl (anime_result frieren) = js ''http://x/xl.jpg''"
    "r_imageUrl (anime_result romaji_only) = js ''http://x/457.jpg''"
    "r_imageUrl (anime_result native_only) = js ''http://x/12.jpg''"
    "r_imageUrl (anime_result untitled) = js ''http://x/9.jpg''"
    using w by (simp_all add: flds nonempty)
  have a: "anime_result frieren =
        \<lparr>r_id = js ''154587'', r_title = js ''Frieren'', r_year = Some 2023,
          r_imageUrl = js ''http://x/xl.jpg''\<rparr>"
    "anime_result romaji_only =
        \<lparr>r_id = js ''457'', r_title = js ''Mushishi'', r_year = Some 2005,
          r_imageUrl = js ''http://x/457.jpg''\<rparr>"
    "anime_result native_only =
        \<lparr>r_id = js ''12'', r_title = js ''Kaiba'', r_year = None,
          r_imageUrl = js ''http://x/12.jpg''\<rparr>"
    "anime_result untitled =
        \<lparr>r_id = js ''9'', r_title = js ''Untitled'', r_year = Some 1999,
          r_imageUrl = js ''http://x/9.jpg''\<rparr>"
    by (subst n, simp add: t yrs ids flds)+
  show ?thesis
    using q w by (simp add: d flds nonempty a trim_naruto)
qed

section \<open>The game route: empty queries, the token, the request body\<close>

lemma game_GET_blank:
  "query_param qp = [] \<Longrightarrow> game_GET env cachedToken qp = (Inr (results_response []), cachedToken, [])"
  by (simp add: game_GET_def)

lemma getTwitchAppToken_unconfigured:
  "\<not> truthy (TWITCH_CLIENT_ID env) \<or> \<not> truthy (TWITCH_CLIENT_SECRET env) \<Longrightarrow>
   getTwitchAppToken env cachedToken =
     (Inl (Error (js ''Missing TWITCH_CLIENT_ID or TWITCH_CLIENT_SECRET in .env.local'')),
      cachedToken, [])"
  by (auto simp add: getTwitchAppToken_def)

text \<open>With a non-empty query the handler asks for the token before anything else.\<close>

lemma game_GET_token_error:
  "query_param qp \<noteq> [] \<Longrightarrow> getTwitchAppToken env cachedToken = (Inl e, c, log) \<Longrightarrow>
   game_GET env cachedToken qp = (Inl e, c, log)"
  by (simp add: game_GET_def Let_def)


text \<open>
  C10. When the \<open>q\<close> parameter of a game search is absent, empty or made of white space
  only, the handler answers \<open>{ results: [] }\<close> without an error, without a request and
  without touching the token cache, in every environment: also in one where the
  client credentials are not set, in which any non-empty query makes the handler throw.
\<close>

theorem game_blank_query:
  assumes "qp = None \<or> (\<exists>s. qp = Some s \<and> list_all isWhiteSpace s)"
  shows "game_GET env cachedToken qp =
           (Inr \<lparr>status = 200, headers = json_headers, body = ResultsJson []\<rparr>, cachedToken, [])"
  using assms
  by (simp add: game_GET_blank query_param_Nil_iff [symmetric] results_response_def)

theorem game_blank_query_witness:
  "TWITCH_CLIENT_ID unconfigured_env = None \<and> TWITCH_CLIENT_SECRET unconfigured_env = None \<and>
   list_all isWhiteSpace (js ''  '') \<and>
   game_GET unconfigured_env None (Some (js ''  '')) =
     (Inr \<lparr>status = 200, headers = json_headers, body = ResultsJson []\<rparr>, None, []) \<and>
   game_GET unconfigured_env None None =
     (Inr \<lparr>status = 200, headers = json_headers, body = ResultsJson []\<rparr>, None, []) \<and>
   fst (game_GET unconfigured_env None (Some (js ''naruto''))) =
     Inl (Error (js ''Missing TWITCH_CLIENT_ID or TWITCH_CLIENT_SECRET in .env.local''))"
proof -
  have w: "list_all isWhiteSpace (js ''  '')"
    by (simp add: js_def isWhiteSpace_def)
  have u: "TWITCH_CLIENT_ID unconfigured_env = None" "TWITCH_CLIENT_SECRET unconfigured_env = None"
    by (simp_all add: unconfigured_env_def)
  have q: "query_param (Some (js ''naruto'')) \<noteq> []"
    unfolding trim_naruto by (simp add: js_def)
  have t: "\<not> truthy (TWITCH_CLIENT_ID unconfigured_env) \<or>
           \<not> truthy (TWITCH_CLIENT_SECRET unconfigured_env)"
    by (simp add: u truthy_def)
  have e: "fst (game_GET unconfigured_env None (Some (js ''naruto''))) =
      Inl (Error (js ''Missing TWITCH_CLIENT_ID or TWITCH_CLIENT_SECRET in .env.local''))"
    using game_GET_token_error [OF q getTwitchAppToken_unconfigured [OF t]] by simp
  show ?thesis
    using w u e game_blank_query [of "Some (js ''  '')" unconfigured_env None]
      game_blank_query [of None unconfigured_env None]
    by simp
qed





text \<open>
  The text of the request body: the four statements of \<open>igdb_query\<close>, one per line.
\<close>

lemma igdb_template_split:
  "igdb_template q = js ''\<newline>    '' @ render (igdb_query q) @ js ''\<newline>  ''"
  by (simp add: igdb_template_def render_def igdb_query_def js_def)

lemma igdb_body_render: "igdb_body q = render (igdb_query q)"
  unfolding igdb_body_def igdb_template_split
  by (rule trim_core) (simp_all add: render_def igdb_query_def js_def isWhiteSpace_def)

text \<open>
  C1, as stated: the request would exclude DLC entries as well as version variants. Its
  only condition is \<open>version_parent = null\<close>, which a DLC entry meets.
\<close>

theorem igdb_request_dlc_counterexample:
  "req_body (igdb_request (js ''id'') (js ''tok'') (js ''zelda'')) =
     TextBody (render (igdb_query (js ''zelda''))) \<and>
   admits (igdb_query (js ''zelda'')) dlc_entry \<and> is_dlc dlc_entry"
  by (simp add: igdb_request_def igdb_body_render admits_def igdb_query_def dlc_entry_def
        is_dlc_def, simp add: js_def)

text \<open>
  C1, amended. For every query, the body of the request to the games upstream is the
  text of four statements: the search for the query without its double quotes, the
  three fields, the condition \<open>version_parent = null\<close> and \<open>limit 24\<close>. So the request
  is limited to 24 results and admits no version variant; it has no other condition.
\<close>

theorem igdb_request_limit_and_filter:
  "req_body (igdb_request clientId tok q) = TextBody (render (igdb_query q)) \<and>
   render (igdb_query q) =
     js ''search '' @ [0x22] @ filter (\<lambda>c. c \<noteq> 0x22) q @ [0x22] @ js '';'' @
     js ''\<newline>    fields name, first_release_date, cover.image_id;'' @
     js ''\<newline>    where version_parent = null;'' @
     js ''\<newline>    limit 24;'' \<and>
   query_limit (igdb_query q) = Some 24 \<and>
   (\<forall>e. admits (igdb_query q) e \<longrightarrow> \<not> is_version_variant e) \<and>
   (\<forall>e. admits (igdb_query q) e \<longleftrightarrow> e (js ''version_parent'') = None)"
proof -
  have 1: "req_body (igdb_request clientId tok q) = TextBody (render (igdb_query q))"
    by (simp add: igdb_request_def igdb_body_render)
  have 2: "render (igdb_query q) =
     js ''search '' @ [0x22] @ filter (\<lambda>c. c \<noteq> 0x22) q @ [0x22] @ js '';'' @
     js ''\<newline>    fields name, first_release_date, cover.image_id;'' @
     js ''\<newline>    where version_parent = null;'' @
     js ''\<newline>    limit 24;''"
    by (simp add: render_def igdb_query_def strip_quotes_def js_def)
  have 3: "query_limit (igdb_query q) = Some 24"
    by (simp add: query_limit_def igdb_query_def List.map_filter_simps)
  have 4: "admits (igdb_query q) e \<longleftrightarrow> e (js ''version_parent'') = None" for e
    by (simp add: admits_def igdb_query_def)
  show ?thesis
    using 1 2 3 4 by (simp add: is_version_variant_def)
qed

theorem igdb_request_limit_and_filter_witness:
  "admits (igdb_query (js ''zelda'')) main_entry \<and> \<not> is_version_variant main_entry \<and>
   query_limit (igdb_query (js ''zelda'')) = Some 24 \<and>
   req_body (igdb_request (js ''id'') (js ''tok'') (js ''zel'' @ [0x22] @ js ''da'')) =
     TextBody (js ''search '' @ [0x22] @ js ''zelda'' @ [0x22] @ js '';'' @
       js ''\<newline>    fields name, first_release_date, cover.image_id;'' @
       js ''\<newline>    where version_parent = null;'' @
       js ''\<newline>    limit 24;'')"
proof -
  have a: "admits (igdb_query (js ''zelda'')) main_entry"
    by (simp add: admits_def igdb_query_def main_entry_def, simp add: js_def)
  show ?thesis
    using a igdb_request_limit_and_filter [of "js ''id''" "js ''tok''" "js ''zelda''"]
      igdb_request_limit_and_filter [of "js ''id''" "js ''tok''" "js ''zel'' @ [0x22] @ js ''da''"]
    by (simp add: js_def is_version_variant_def main_entry_def)
qed


section \<open>The editor\<close>

lemma update_cells_get:
  "array_get (update_cells (Some i) patch a) j =
     (if j = i then Some (spread (array_get a i) patch) else array_get a j)"
  by (simp add: update_cells_def array_get_set)

lemma length_update_cells:
  "i < length a \<Longrightarrow> length (update_cells (Some i) patch a) = length a"
  by (simp add: update_cells_def length_array_set)

text \<open>
  C5. With cell \<open>i\<close> selected, patching the label to \<open>X\<close> makes \<open>cells[i].label\<close>
  equal to \<open>X\<close>, keeps the image of cell \<open>i\<close>, and every read of the array at an
  index other than \<open>i\<close> gives what it gave before. This holds for every array and
  every index, also one past the end of the array, which the write then extends.
\<close>

theorem patch_label_frame:
  assumes "selectedIndex s = Some i"
  shows "Option.bind (array_get (cells (updateSelected (label_patch X) s)) i) label = Some X
       \<and> Option.bind (array_get (cells (updateSelected (label_patch X) s)) i) imageUrl =
           Option.bind (array_get (cells s) i) imageUrl
       \<and> (\<forall>j. j \<noteq> i \<longrightarrow>
            array_get (cells (updateSelected (label_patch X) s)) j = array_get (cells s) j)"
  using assms
  by (cases "array_get (cells s) i")
     (simp_all add: updateSelected_def update_cells_get spread_def label_patch_def)

theorem patch_label_frame_witness:
  "selectedIndex (setSelectedIndex 3 initial) = Some 3 \<and>
   Option.bind
     (array_get (cells (updateSelected (label_patch (js ''X'')) (setSelectedIndex 3 initial))) 3)
     label = Some (js ''X'') \<and>
   array_get (cells (updateSelected (label_patch (js ''X'')) (setSelectedIndex 3 initial))) 4 =
     Some \<lparr>label = Some (js ''Favorite Villain''), imageUrl = None\<rparr> \<and>
   length (cells (updateSelected (label_patch (js ''X'')) (setSelectedIndex 3 initial))) = 18"
proof -
  have i: "selectedIndex (setSelectedIndex 3 initial) = Some 3"
    by (simp add: setSelectedIndex_def)
  have c: "cells (setSelectedIndex 3 initial) = cells initial"
    by (simp add: setSelectedIndex_def)
  have g: "array_get (cells initial) 4 =
      Some \<lparr>label = Some (js ''Favorite Villain''), imageUrl = None\<rparr>"
    by (simp add: array_get_def initial_def defaultLabels_def)
  have n: "length (cells initial) = 18"
    by (simp add: initial_def defaultLabels_def)
  have l: "length (cells (updateSelected (label_patch (js ''X'')) (setSelectedIndex 3 initial))) = 18"
    by (simp add: updateSelected_def i c n length_update_cells)
  show ?thesis
    using i l patch_label_frame [OF i, of "js ''X''"] by (simp add: c g)
qed

text \<open>
  C6. With cell \<open>i\<close> selected, picking a result \<open>r\<close> makes the image of cell \<open>i\<close> the
  string \<open>r.imageUrl\<close> itself, keeps the label of that cell and the other cells, and
  closes the modal.
\<close>

theorem pick_result_assigns:
  assumes "selectedIndex s = Some i"
  shows "Option.bind (array_get (cells (pickResult r s)) i) imageUrl = Some (r_imageUrl r)
       \<and> Option.bind (array_get (cells (pickResult r s)) i) label =
           Option.bind (array_get (cells s) i) label
       \<and> (\<forall>j. j \<noteq> i \<longrightarrow> array_get (cells (pickResult r s)) j = array_get (cells s) j)
       \<and> \<not> isSearchOpen (pickResult r s)"
  using assms
  by (cases "array_get (cells s) i")
     (simp_all add: pickResult_def updateSelected_def update_cells_get spread_def image_patch_def)

theorem pick_result_assigns_witness:
  "selectedIndex (setSelectedIndex 3 (initial\<lparr>isSearchOpen := True\<rparr>)) = Some 3 \<and>
   isSearchOpen (setSelectedIndex 3 (initial\<lparr>isSearchOpen := True\<rparr>)) \<and>
   array_get (cells (pickResult picked (setSelectedIndex 3 (initial\<lparr>isSearchOpen := True\<rparr>)))) 3 =
     Some \<lparr>label = Some (js ''Favorite Protagonist''), imageUrl = Some (js ''http://x/y.jpg'')\<rparr> \<and>
   \<not> isSearchOpen (pickResult picked (setSelectedIndex 3 (initial\<lparr>isSearchOpen := True\<rparr>)))"
proof -
  let ?s = "setSelectedIndex 3 (initial\<lparr>isSearchOpen := True\<rparr>)"
  have i: "selectedIndex ?s = Some 3"
    by (simp add: setSelectedIndex_def)
  have o: "isSearchOpen ?s"
    by (simp add: setSelectedIndex_def)
  have g: "array_get (cells ?s) 3 =
      Some \<lparr>label = Some (js ''Favorite Protagonist''), imageUrl = None\<rparr>"
    by (simp add: setSelectedIndex_def array_get_def initial_def defaultLabels_def)
  have p: "r_imageUrl picked = js ''http://x/y.jpg''"
    by (simp add: picked_def)
  obtain c where c: "array_get (cells (pickResult picked ?s)) 3 = Some c"
    using pick_result_assigns [OF i, of picked]
    by (cases "array_get (cells (pickResult picked ?s)) 3") simp_all
  have "imageUrl c = Some (js ''http://x/y.jpg'')" "label c = Some (js ''Favorite Protagonist'')"
    using pick_result_assigns [OF i, of picked] c by (simp_all add: g p)
  then have "c = \<lparr>label = Some (js ''Favorite Protagonist''), imageUrl = Some (js ''http://x/y.jpg'')\<rparr>"
    by (cases c) simp
  then show ?thesis
    using i o c pick_result_assigns [OF i, of picked] by simp
qed

text \<open>
  C8. With a cell selected, a file whose MIME type does not start with \<open>image/\<close> leaves
  the cells as they are (so the image of the selected cell too), starts no reader (so
  nothing is assigned later either) and shows the rejection message in an alert.
\<close>

theorem upload_non_image_rejected:
  assumes "selectedIndex s = Some i"
    and "\<not> startsWith (file_type file) (js ''image/'')"
  shows "cells (handleUploadImage file s) = cells s
       \<and> Option.bind (array_get (cells (handleUploadImage file s)) i) imageUrl =
           Option.bind (array_get (cells s) i) imageUrl
       \<and> readers (handleUploadImage file s) = readers s
       \<and> alerts (handleUploadImage file s) =
           alerts s @ [js ''Please upload an image file (png/jpg/webp/etc).'']"
  using assms by (simp add: handleUploadImage_def upload_rejected_def)

theorem upload_non_image_rejected_witness:
  "selectedIndex (setSelectedIndex 3 initial) = Some 3 \<and>
   \<not> startsWith (file_type text_file) (js ''image/'') \<and>
   cells (handleUploadImage text_file (setSelectedIndex 3 initial)) = cells initial \<and>
   readers (handleUploadImage text_file (setSelectedIndex 3 initial)) = [] \<and>
   alerts (handleUploadImage text_file (setSelectedIndex 3 initial)) =
     [js ''Please upload an image file (png/jpg/webp/etc).'']"
proof -
  have i: "selectedIndex (setSelectedIndex 3 initial) = Some 3"
    by (simp add: setSelectedIndex_def)
  have t: "\<not> startsWith (file_type text_file) (js ''image/'')"
    by (simp add: startsWith_def text_file_def js_def)
  have z: "cells (setSelectedIndex 3 initial) = cells initial"
    "readers (setSelectedIndex 3 initial) = []" "alerts (setSelectedIndex 3 initial) = []"
    by (simp_all add: setSelectedIndex_def initial_def)
  show ?thesis
    using i t upload_non_image_rejected [OF i t] by (simp add: z)
qed

text \<open>Each handler keeps the invariant; so does every run of events.\<close>

lemma index_ok_initial: "index_ok initial"
  by (simp add: index_ok_def initial_def defaultLabels_def)

lemma index_ok_update_cells:
  assumes "length a = 18" and "i < 18"
  shows "length (update_cells (Some i) patch a) = 18"
  using assms by (simp add: length_update_cells)

lemma index_ok_updateSelected: "index_ok s \<Longrightarrow> index_ok (updateSelected patch s)"
  by (cases "selectedIndex s")
     (simp_all add: index_ok_def updateSelected_def update_cells_def length_array_set)

lemma list_all_remove1: "list_all P xs \<Longrightarrow> list_all P (remove1 x xs)"
  by (auto simp add: list_all_iff dest: notin_set_remove1)

lemma handle_keeps_index_ok:
  assumes "index_ok s" and "handle e s = Some s'"
  shows "index_ok s'"
proof (cases e)
  case (ClickCell i)
  with assms show ?thesis
    by (auto simp add: index_ok_def setSelectedIndex_def rows_def cols_def split: if_splits)
next
  case (EditLabel x)
  with assms index_ok_updateSelected [of s "label_patch x"] show ?thesis by simp
next
  case ClickClear
  with assms index_ok_updateSelected [of s "image_patch None"] show ?thesis
    by (simp add: clearImage_def)
next
  case (FileChosen f)
  with assms show ?thesis
    by (cases "startsWith (file_type f) (js ''image/'')")
       (auto simp add: index_ok_def handleUploadImage_def split: option.splits)
next
  case (ReaderLoaded i dataUrl)
  with assms have i: "i \<in> set (readers s)" and s': "s' = reader_onload i dataUrl s"
    by (simp_all split: if_splits)
  from assms(1) i have "i < 18" by (simp add: index_ok_def list_all_iff)
  with assms(1) show ?thesis
    by (simp add: s' index_ok_def reader_onload_def index_ok_update_cells list_all_remove1)
next
  case (ReaderFailed i)
  with assms show ?thesis
    by (auto simp add: index_ok_def reader_onerror_def list_all_remove1 split: if_splits)
next
  case (PickResult r)
  with assms index_ok_updateSelected [of s "image_patch (Some (r_imageUrl r))"] show ?thesis
    by (auto simp add: pickResult_def index_ok_def split: option.splits)
next
  case SearchBegin
  with assms show ?thesis by (auto simp add: index_ok_def runSearch_begin_def)
next
  case (SearchSettle out)
  with assms show ?thesis
    by (cases out) (auto simp add: index_ok_def runSearch_settle_def)
next
  case ExportBegin
  with assms show ?thesis by (auto simp add: index_ok_def exportPng_begin_def)
next
  case (ExportSettle succeeded)
  with assms show ?thesis by (auto simp add: index_ok_def exportPng_settle_def)
qed (use assms in \<open>auto simp add: index_ok_def\<close>)

lemma run_keeps_index_ok: "index_ok s \<Longrightarrow> run s es = Some s' \<Longrightarrow> index_ok s'"
proof (induction es arbitrary: s)
  case Nil
  then show ?case by simp
next
  case (Cons e es)
  then show ?case
    by (auto split: option.splits dest: handle_keeps_index_ok)
qed

text \<open>
  C9. In every state the editor reaches from its initial state by events of the page,
  there are 18 cells and the selected index is unset or below 18; and every single
  event (select, patch, clear, upload and its reader's callbacks, pick result, and the
  others) leads from a state with this invariant to a state with it.
\<close>

theorem selected_index_in_range:
  "(run initial es = Some s \<longrightarrow>
      length (cells s) = 18 \<and>
      (selectedIndex s = None \<or> (\<exists>i. selectedIndex s = Some i \<and> i < 18)))
   \<and> (index_ok t \<and> handle e t = Some t' \<longrightarrow> index_ok t')"
proof -
  have "index_ok s" if "run initial es = Some s"
    using index_ok_initial that by (rule run_keeps_index_ok)
  then have "run initial es = Some s \<longrightarrow>
      length (cells s) = 18 \<and>
      (selectedIndex s = None \<or> (\<exists>i. selectedIndex s = Some i \<and> i < 18))"
    by (cases "selectedIndex s") (auto simp add: index_ok_def)
  then show ?thesis
    using handle_keeps_index_ok by blast
qed

theorem selected_index_in_range_witness:
  "run initial sample_events =
     Some (setSelectedIndex 17 (pickResult picked (handleUploadImage text_file
       (updateSelected (label_patch (js ''X'')) (setSelectedIndex 3 initial))))) \<and>
   length (cells (the (run initial sample_events))) = 18 \<and>
   selectedIndex (the (run initial sample_events)) = Some 17 \<and>
   handle (ClickCell 18) initial = None \<and>
   index_ok initial \<and>
   handle (ClickCell 5) initial = Some (setSelectedIndex 5 initial) \<and>
   index_ok (setSelectedIndex 5 initial)"
proof -
  let ?s = "setSelectedIndex 17 (pickResult picked (handleUploadImage text_file
       (updateSelected (label_patch (js ''X'')) (setSelectedIndex 3 initial))))"
  have r: "run initial sample_events = Some ?s"
    by (simp add: sample_events_def rows_def cols_def)
  have h: "handle (ClickCell 5) initial = Some (setSelectedIndex 5 initial)"
    "handle (ClickCell 18) initial = None"
    by (simp_all add: rows_def cols_def)
  have i: "selectedIndex ?s = Some 17"
    by (simp add: setSelectedIndex_def)
  show ?thesis
    using r h i index_ok_initial
      selected_index_in_range [of sample_events ?s initial "ClickCell 5" "setSelectedIndex 5 initial"]
    by simp
qed


end
